theory Spec2Isabelle
  imports Complex_Main "HOL-Library.Multiset"
begin

section \<open>draw3d.py: data model\<close>

text \<open>
  A vector is a coordinate triple. The coordinates are Python numbers (ints or floats);
  they are modelled as real numbers, so the arithmetic of the bounding box is exact and
  rounding is not part of the model. Colours and line styles are the strings handed to
  the plotting library.
\<close>

type_synonym vec = "real \<times> real \<times> real"
type_synonym color = string
type_synonym linestyle = string
type_synonym range = "real \<times> real"

text \<open>
  The five data-holder classes, one constructor each, with the fields in the order of the
  attributes set by \<open>__init__\<close>: \<open>Polygon3D vertices color\<close>, \<open>Points3D vectors color\<close>,
  \<open>Arrow3D tip tail color\<close>, \<open>Segment3D start_point end_point color linestyle\<close> and
  \<open>Box3D vector\<close>. \<open>Other r\<close> is any Python object that is an instance of none of the
  five classes; \<open>r\<close> is its printed form.
\<close>

datatype obj =
    Polygon3D "vec list" color
  | Points3D "vec list" color
  | Arrow3D vec vec color
  | Segment3D vec vec color linestyle
  | Box3D vec
  | Other string

text \<open>
  The exceptions of the module: the \<open>TypeError\<close> raised on an unrecognized object, which
  carries that object in its message, and the \<open>ValueError\<close> of a failed tuple unpacking.
\<close>

datatype error = TypeError obj | ValueError

fun recognized :: "obj \<Rightarrow> bool" where
  "recognized (Other r) = False"
| "recognized obj = True"

section \<open>Vector extraction\<close>

text \<open>
  \<open>extract_vectors_3D\<close> is a generator; \<open>draw3d\<close> consumes it with \<open>list(...)\<close>. The loop
  below carries the list built so far; the \<open>raise\<close> of the last branch ends it.
\<close>

fun extract_loop :: "obj list \<Rightarrow> vec list \<Rightarrow> error + vec list" where
  "extract_loop [] acc = Inr acc"
| "extract_loop (Polygon3D vertices c # objects) acc = extract_loop objects (acc @ vertices)"
| "extract_loop (Points3D vectors c # objects) acc = extract_loop objects (acc @ vectors)"
| "extract_loop (Arrow3D tip tail c # objects) acc = extract_loop objects (acc @ [tip, tail])"
| "extract_loop (Segment3D start_point end_point c l # objects) acc =
     extract_loop objects (acc @ [start_point, end_point])"
| "extract_loop (Box3D vector # objects) acc = extract_loop objects (acc @ [vector])"
| "extract_loop (Other r # objects) acc = Inl (TypeError (Other r))"

definition extract_vectors_3D :: "obj list \<Rightarrow> error + vec list" where
  "extract_vectors_3D objects = extract_loop objects []"

text \<open>
  The coordinates the specification documents for each kind of object: every vertex of a
  polygon, every vector of a point set, tip and tail of an arrow, both endpoints of a
  segment, the corner of a box.
\<close>

fun documented_vectors :: "obj \<Rightarrow> vec list" where
  "documented_vectors (Polygon3D vertices c) = vertices"
| "documented_vectors (Points3D vectors c) = vectors"
| "documented_vectors (Arrow3D tip tail c) = [tip, tail]"
| "documented_vectors (Segment3D start_point end_point c l) = [start_point, end_point]"
| "documented_vectors (Box3D vector) = [vector]"
| "documented_vectors (Other r) = []"

section \<open>Bounding box\<close>

text \<open>
  Python's \<open>max(0, *xs)\<close> and \<open>min(0, *xs)\<close> scan their arguments from the left and
  replace the running value only by a strictly larger (smaller) one.
\<close>

definition py_max :: "real \<Rightarrow> real list \<Rightarrow> real" where
  "py_max first rest = fold (\<lambda>item max_val. if item > max_val then item else max_val) rest first"

definition py_min :: "real \<Rightarrow> real list \<Rightarrow> real" where
  "py_min first rest = fold (\<lambda>item min_val. if item < min_val then item else min_val) rest first"

text \<open>
  \<open>xs, ys, zs = zip(*all_vectors)\<close>: the transposition of an empty list has no
  components, and unpacking it into three names raises \<open>ValueError\<close>.
\<close>

definition unzip3 :: "vec list \<Rightarrow> error + (real list \<times> real list \<times> real list)" where
  "unzip3 vectors =
     (if vectors = [] then Inl ValueError
      else Inr (map fst vectors, map (fst \<circ> snd) vectors, map (snd \<circ> snd) vectors))"

text \<open>Step 3 of \<open>draw3d\<close>: all extracted vectors, and the origin when \<open>origin\<close> is set.\<close>

definition all_vectors :: "bool \<Rightarrow> obj list \<Rightarrow> error + vec list" where
  "all_vectors origin objects =
     (case extract_vectors_3D objects of
        Inl e \<Rightarrow> Inl e
      | Inr vs \<Rightarrow> Inr (if origin then vs @ [(0, 0, 0)] else vs))"

text \<open>Steps 4 and 5 of \<open>draw3d\<close>: the three plot ranges.\<close>

definition plot_ranges :: "vec list \<Rightarrow> error + (range \<times> range \<times> range)" where
  "plot_ranges vectors =
     (case unzip3 vectors of
        Inl e \<Rightarrow> Inl e
      | Inr (xs, ys, zs) \<Rightarrow>
          (let max_x = py_max 0 xs; min_x = py_min 0 xs;
               max_y = py_max 0 ys; min_y = py_min 0 ys;
               max_z = py_max 0 zs; min_z = py_min 0 zs;
               x_size = max_x - min_x;
               y_size = max_y - min_y;
               z_size = max_z - min_z;
               padding_x = (if x_size \<noteq> 0 then 0.05 * x_size else 1);
               padding_y = (if y_size \<noteq> 0 then 0.05 * y_size else 1);
               padding_z = (if z_size \<noteq> 0 then 0.05 * z_size else 1)
           in Inr ((min (min_x - padding_x) (- 2), max (max_x + padding_x) 2),
                   (min (min_y - padding_y) (- 2), max (max_y + padding_y) 2),
                   (min (min_z - padding_z) (- 2), max (max_z + padding_z) 2))))"

definition computed_ranges :: "bool \<Rightarrow> obj list \<Rightarrow> error + (range \<times> range \<times> range)" where
  "computed_ranges origin objects =
     (case all_vectors origin objects of
        Inl e \<Rightarrow> Inl e
      | Inr vectors \<Rightarrow> plot_ranges vectors)"

section \<open>Rendering\<close>

text \<open>
  The calls \<open>draw3d\<close> makes on the plotting library, in the order it makes them, are
  the observable effect of the function. Each constructor is one library call with the
  arguments that vary: \<open>plt.figure\<close>, \<open>fig.add_subplot\<close>, \<open>ax.view_init elev azim\<close>,
  \<open>ax.set_xlim\<close> (\<open>ylim\<close>, \<open>zlim\<close>), \<open>ax.set_xlabel\<close> (...), \<open>ax.plot xs ys zs color
  linestyle\<close>, \<open>ax.scatter xs ys zs color marker depthshade\<close>, \<open>ax.quiver x y z dx dy dz
  color\<close>, \<open>ax.set_xticks\<close> (...), \<open>plt.savefig\<close> and \<open>plt.show\<close>.
\<close>

datatype axis = X | Y | Z

datatype call =
    Figure real
  | Add_subplot
  | View_init "real option" "real option"
  | Set_lim axis range
  | Set_label axis string
  | Plot "real list" "real list" "real list" color linestyle
  | Scatter "real list" "real list" "real list" color "string option" "bool option"
  | Quiver real real real real real real color
  | Set_ticks axis "real list"
  | Savefig string
  | Show

text \<open>The keyword arguments of \<open>draw3d\<close>, with the defaults of its signature.\<close>

record options =
  origin :: bool
  axes :: bool
  width :: real
  save_as :: "string option"
  azim :: "real option"
  elev :: "real option"
  xlim :: "range option"
  ylim :: "range option"
  zlim :: "range option"
  xticks :: "real list option"
  yticks :: "real list option"
  zticks :: "real list option"
  depthshade :: bool

definition default_options :: options where
  "default_options =
     \<lparr>origin = True, axes = True, width = 6, save_as = None, azim = None, elev = None,
      xlim = None, ylim = None, zlim = None,
      xticks = None, yticks = None, zticks = None, depthshade = False\<rparr>"

text \<open>
  Modelled from the spec: the module \<open>colors\<close>, from which \<open>draw3d.py\<close> imports \<open>blue\<close>,
  \<open>black\<close> and \<open>red\<close>, is not among the sources; \<open>black\<close> stands for the colour value it
  binds to that name.
\<close>

definition black :: color where
  "black = ''black''"

text \<open>The inner helper \<open>_draw_axis_line\<close>: one \<open>ax.plot\<close> of a two-point line.\<close>

definition draw_axis_line :: "vec \<Rightarrow> vec \<Rightarrow> color \<Rightarrow> linestyle \<Rightarrow> call" where
  "draw_axis_line start end c l =
     (case (start, end) of
        ((s0, s1, s2), (e0, e1, e2)) \<Rightarrow> Plot [s0, e0] [s1, e1] [s2, e2] c l)"

text \<open>Steps 1 and 2: the fresh figure and the optional view angles.\<close>

definition figure_setup :: "options \<Rightarrow> call list" where
  "figure_setup opt =
     [Figure (width opt), Add_subplot] @
     (if azim opt \<noteq> None \<or> elev opt \<noteq> None then [View_init (elev opt) (azim opt)] else [])"

text \<open>Step 8b: \<open>for i in range(N)\<close> over the vertices of a polygon.\<close>

function polygon_loop :: "vec list \<Rightarrow> color \<Rightarrow> nat \<Rightarrow> call list \<Rightarrow> call list" where
  "polygon_loop vertices c i trace =
     (let N = length vertices
      in if i < N
         then polygon_loop vertices c (Suc i)
                (trace @ [draw_axis_line (vertices ! i) (vertices ! ((i + 1) mod N)) c ''solid''])
         else trace)"
  by pat_completeness auto
termination
  by (relation "measure (\<lambda>(vertices, c, i, trace). length vertices - i)") auto

declare polygon_loop.simps [simp del]

text \<open>
  Step 8: the calls made for one object, in the order of the \<open>isinstance\<close> chain. The
  unpacking \<open>zip(*obj.vectors)\<close> of a point set raises on an empty one.
\<close>

fun draw_object :: "bool \<Rightarrow> obj \<Rightarrow> error + call list" where
  "draw_object d (Points3D vectors c) =
     (case unzip3 vectors of
        Inl e \<Rightarrow> Inl e
      | Inr (xs_pts, ys_pts, zs_pts) \<Rightarrow> Inr [Scatter xs_pts ys_pts zs_pts c None (Some d)])"
| "draw_object d (Polygon3D vertices c) = Inr (polygon_loop vertices c 0 [])"
| "draw_object d (Arrow3D tip tail c) =
     (case (tail, tip) of
        ((tx, ty, tz), (px, py, pz)) \<Rightarrow> Inr [Quiver tx ty tz (px - tx) (py - ty) (pz - tz) c])"
| "draw_object d (Segment3D s e c l) =
     Inr [Plot [fst s, fst e] [fst (snd s), fst (snd e)] [snd (snd s), snd (snd e)] c l]"
| "draw_object d (Box3D vector) =
     (case vector of
        (x, y, z) \<Rightarrow>
          Inr [draw_axis_line (0, y, 0) (x, y, 0) ''gray'' ''dashed'',
               draw_axis_line (0, 0, z) (0, y, z) ''gray'' ''dashed'',
               draw_axis_line (0, 0, z) (x, 0, z) ''gray'' ''dashed'',
               draw_axis_line (0, y, 0) (0, y, z) ''gray'' ''dashed'',
               draw_axis_line (x, 0, 0) (x, y, 0) ''gray'' ''dashed'',
               draw_axis_line (x, 0, 0) (x, 0, z) ''gray'' ''dashed'',
               draw_axis_line (0, y, z) (x, y, z) ''gray'' ''dashed'',
               draw_axis_line (x, 0, z) (x, y, z) ''gray'' ''dashed'',
               draw_axis_line (x, y, 0) (x, y, z) ''gray'' ''dashed''])"
| "draw_object d (Other r) = Inl (TypeError (Other r))"

text \<open>
  The loop of step 8. A failure is returned together with the calls made before it.
\<close>

fun draw_objects :: "bool \<Rightarrow> obj list \<Rightarrow> call list \<Rightarrow> (error \<times> call list) + call list" where
  "draw_objects d [] trace = Inr trace"
| "draw_objects d (obj # objects) trace =
     (case draw_object d obj of
        Inl e \<Rightarrow> Inl (e, trace)
      | Inr calls \<Rightarrow> draw_objects d objects (trace @ calls))"

text \<open>Steps 9 to 12: the overrides, the optional save, the final show.\<close>

definition finish :: "options \<Rightarrow> call list" where
  "finish opt =
     (case (xlim opt, ylim opt, zlim opt) of
        (Some rx, Some ry, Some rz) \<Rightarrow> [Set_lim X rx, Set_lim Y ry, Set_lim Z rz]
      | _ \<Rightarrow> []) @
     (case (xticks opt, yticks opt, zticks opt) of
        (Some tx, Some ty, Some tz) \<Rightarrow> [Set_ticks X tx, Set_ticks Y ty, Set_ticks Z tz]
      | _ \<Rightarrow> []) @
     (case save_as opt of
        None \<Rightarrow> []
      | Some name \<Rightarrow> (if name \<noteq> [] then [Savefig name] else [])) @
     [Show]"

text \<open>Steps 5 to 7: the computed limits, the labels, the axis lines, the origin mark.\<close>

definition frame :: "options \<Rightarrow> range \<times> range \<times> range \<Rightarrow> call list" where
  "frame opt ranges =
     (case ranges of
        (plot_x_range, plot_y_range, plot_z_range) \<Rightarrow>
          [Set_lim X plot_x_range, Set_lim Y plot_y_range, Set_lim Z plot_z_range,
           Set_label X ''x'', Set_label Y ''y'', Set_label Z ''z''] @
          (if axes opt
           then [draw_axis_line (fst plot_x_range, 0, 0) (snd plot_x_range, 0, 0) black ''solid'',
                 draw_axis_line (0, fst plot_y_range, 0) (0, snd plot_y_range, 0) black ''solid'',
                 draw_axis_line (0, 0, fst plot_z_range) (0, 0, snd plot_z_range) black ''solid'']
           else []) @
          (if origin opt then [Scatter [0] [0] [0] ''k'' (Some ''x'') None] else []))"

text \<open>
  The whole function. The failures of the model are those raised by the statements of the
  module itself on coordinate triples: the \<open>TypeError\<close> of an unrecognized object and the
  \<open>ValueError\<close> of an unpacking. A failure inside the plotting library (a width that is not
  positive, an unknown colour), the overflow of an integer coordinate beyond the range of
  floats, and a vector that is not a triple (\<open>Box3D\<close> accepts any number of coordinates) are
  outside the model: a completed call of the model is a call that completes when none of
  these occurs.
\<close>

definition draw3d :: "obj list \<Rightarrow> options \<Rightarrow> (error \<times> call list) + call list" where
  "draw3d objects opt =
     (case computed_ranges (origin opt) objects of
        Inl e \<Rightarrow> Inl (e, figure_setup opt)
      | Inr ranges \<Rightarrow>
          (case draw_objects (depthshade opt) objects (figure_setup opt @ frame opt ranges) of
             Inl failure \<Rightarrow> Inl failure
           | Inr trace \<Rightarrow> Inr (trace @ finish opt)))"

text \<open>
  What the axes hold after a sequence of calls: the limits (tick positions) of an axis
  are those of the last call that set them, and the library's own when none did.
\<close>

fun lim_step :: "axis \<Rightarrow> call \<Rightarrow> range option \<Rightarrow> range option" where
  "lim_step a (Set_lim b r) old = (if a = b then Some r else old)"
| "lim_step a other old = old"

fun ticks_step :: "axis \<Rightarrow> call \<Rightarrow> real list option \<Rightarrow> real list option" where
  "ticks_step a (Set_ticks b t) old = (if a = b then Some t else old)"
| "ticks_step a other old = old"

definition final_lim :: "axis \<Rightarrow> call list \<Rightarrow> range option" where
  "final_lim a trace = fold (lim_step a) trace None"

definition final_ticks :: "axis \<Rightarrow> call list \<Rightarrow> real list option" where
  "final_ticks a trace = fold (ticks_step a) trace None"

section \<open>The bounding box as the specification words it\<close>

text \<open>
  Per axis: the least and greatest coordinate, zero included; a padding of five percent
  of the extent, or of one when the extent is zero; the padded interval widened to
  contain \<open>[-2, 2]\<close>.
\<close>

definition spec_axis_range :: "real list \<Rightarrow> range" where
  "spec_axis_range cs =
     (let lo = Min (insert 0 (set cs));
          hi = Max (insert 0 (set cs));
          extent = hi - lo;
          padding = (if extent = 0 then 1 else extent * 5 / 100)
      in (min (lo - padding) (- 2), max (hi + padding) 2))"

section \<open>Extraction: auxiliary facts\<close>

lemma extract_loop_recognized:
  "\<forall>obj \<in> set objects. recognized obj \<Longrightarrow>
   extract_loop objects acc = Inr (acc @ concat (map documented_vectors objects))"
proof (induction objects arbitrary: acc)
  case Nil
  show ?case by simp
next
  case (Cons obj objects)
  then show ?case by (cases obj) simp_all
qed

lemma extract_vectors_recognized:
  "\<forall>obj \<in> set objects. recognized obj \<Longrightarrow>
   extract_vectors_3D objects = Inr (concat (map documented_vectors objects))"
  by (simp add: extract_vectors_3D_def extract_loop_recognized)

lemma extract_loop_unrecognized:
  "find (\<lambda>obj. \<not> recognized obj) objects = Some bad \<Longrightarrow>
   extract_loop objects acc = Inl (TypeError bad)"
proof (induction objects arbitrary: acc)
  case Nil
  then show ?case by simp
next
  case (Cons obj objects)
  then show ?case by (cases obj) (auto split: if_splits)
qed

lemma extract_vectors_cases:
  "extract_vectors_3D objects =
     (case find (\<lambda>obj. \<not> recognized obj) objects of
        None \<Rightarrow> Inr (concat (map documented_vectors objects))
      | Some bad \<Rightarrow> Inl (TypeError bad))"
proof (cases "find (\<lambda>obj. \<not> recognized obj) objects")
  case None
  then have "\<forall>obj \<in> set objects. recognized obj" by (auto simp: find_None_iff)
  with None show ?thesis by (simp add: extract_vectors_recognized)
next
  case (Some bad)
  then show ?thesis by (simp add: extract_vectors_3D_def extract_loop_unrecognized)
qed

section \<open>Bounding box: auxiliary facts\<close>

lemma py_max_fold: "py_max m cs = fold max cs m"
proof -
  have "(\<lambda>item max_val. if item > max_val then item else max_val) = (max :: real \<Rightarrow> real \<Rightarrow> real)"
    by (intro ext) (simp add: max_def)
  then show ?thesis by (simp add: py_max_def)
qed

lemma py_min_fold: "py_min m cs = fold min cs m"
proof -
  have "(\<lambda>item min_val. if item < min_val then item else min_val) = (min :: real \<Rightarrow> real \<Rightarrow> real)"
    by (intro ext) (simp add: min_def)
  then show ?thesis by (simp add: py_min_def)
qed

lemma py_max_Max: "py_max m cs = Max (insert m (set cs))"
  using Max.set_eq_fold [of m cs] by (simp add: py_max_fold)

lemma py_min_Min: "py_min m cs = Min (insert m (set cs))"
  using Min.set_eq_fold [of m cs] by (simp add: py_min_fold)

lemma padding_spec:
  "(if hi - lo \<noteq> 0 then 0.05 * (hi - lo) else 1) = (if hi - lo = 0 then 1 else (hi - lo) * 5 / 100)"
  for hi lo :: real
  by simp

lemma axis_range_spec:
  "(min (py_min 0 cs - (if py_max 0 cs - py_min 0 cs \<noteq> 0 then 0.05 * (py_max 0 cs - py_min 0 cs) else 1)) (- 2),
    max (py_max 0 cs + (if py_max 0 cs - py_min 0 cs \<noteq> 0 then 0.05 * (py_max 0 cs - py_min 0 cs) else 1)) 2)
   = spec_axis_range cs"
  unfolding spec_axis_range_def Let_def padding_spec py_max_Max py_min_Min ..

lemma plot_ranges_spec:
  "vectors \<noteq> [] \<Longrightarrow>
   plot_ranges vectors =
     Inr (spec_axis_range (map fst vectors),
          spec_axis_range (map (fst \<circ> snd) vectors),
          spec_axis_range (map (snd \<circ> snd) vectors))"
  unfolding plot_ranges_def unzip3_def Let_def axis_range_spec by simp

lemma plot_ranges_empty: "plot_ranges [] = Inl ValueError"
  by (simp add: plot_ranges_def unzip3_def)

lemma spec_axis_range_set: "set cs = set cs' \<Longrightarrow> spec_axis_range cs = spec_axis_range cs'"
  by (simp add: spec_axis_range_def)

lemma plot_ranges_set:
  assumes "set vectors = set vectors'"
  shows "plot_ranges vectors = plot_ranges vectors'"
proof (cases "vectors = []")
  case True
  with assms have "vectors' = []" by simp
  with True show ?thesis by simp
next
  case False
  with assms have ne: "vectors' \<noteq> []" by auto
  have "spec_axis_range (map f vectors) = spec_axis_range (map f vectors')" for f :: "vec \<Rightarrow> real"
    using assms by (intro spec_axis_range_set) simp
  then show ?thesis
    using False ne by (simp add: plot_ranges_spec)
qed

lemma spec_axis_range_zero: "spec_axis_range (cs @ [0]) = spec_axis_range cs"
  by (simp add: spec_axis_range_def)

lemma plot_ranges_origin:
  assumes "vectors \<noteq> []"
  shows "plot_ranges (vectors @ [(0, 0, 0)]) = plot_ranges vectors"
  using assms by (simp add: plot_ranges_spec spec_axis_range_zero)

lemma spec_axis_range_bounds:
  "fst (spec_axis_range cs) \<le> - 2 \<and> 2 \<le> snd (spec_axis_range cs) \<and>
   (\<forall>c \<in> set cs. fst (spec_axis_range cs) \<le> c \<and> c \<le> snd (spec_axis_range cs))"
proof -
  let ?lo = "Min (insert 0 (set cs))" and ?hi = "Max (insert 0 (set cs))"
  have "?lo \<le> 0" and "0 \<le> ?hi" by simp_all
  then have lohi: "?lo \<le> ?hi" by linarith
  define padding where "padding = (if ?hi - ?lo = 0 then 1 else (?hi - ?lo) * 5 / 100)"
  have pad: "0 \<le> padding" using lohi by (simp add: padding_def)
  have rng: "spec_axis_range cs = (min (?lo - padding) (- 2), max (?hi + padding) 2)"
    by (simp add: spec_axis_range_def Let_def padding_def)
  have "?lo - padding \<le> c \<and> c \<le> ?hi + padding" if "c \<in> set cs" for c
  proof -
    have "?lo \<le> c" and "c \<le> ?hi" using that by simp_all
    with pad show ?thesis by linarith
  qed
  then show ?thesis
    unfolding rng by (auto simp: min_le_iff_disj le_max_iff_disj)
qed

section \<open>Rendering: auxiliary facts\<close>

lemma polygon_loop_eq:
  "i \<le> length vertices \<Longrightarrow>
   polygon_loop vertices c i trace =
     trace @ map (\<lambda>k. draw_axis_line (vertices ! k) (vertices ! ((k + 1) mod length vertices)) c ''solid'')
               [i..<length vertices]"
proof (induction vertices c i trace rule: polygon_loop.induct)
  case (1 vertices c i trace)
  show ?case
  proof (cases "i < length vertices")
    case True
    then have "[i..<length vertices] = i # [Suc i..<length vertices]"
      by (simp add: upt_conv_Cons)
    with True "1.IH" [OF refl True] show ?thesis
      by (subst polygon_loop.simps) (simp add: Let_def)
  next
    case False
    with "1.prems" show ?thesis
      by (subst polygon_loop.simps) (simp add: Let_def)
  qed
qed

lemma lim_step_draw_axis_line [simp]: "lim_step a (draw_axis_line s e c l) r = r"
  by (simp add: draw_axis_line_def split: prod.splits)

lemma ticks_step_draw_axis_line [simp]: "ticks_step a (draw_axis_line s e c l) r = r"
  by (simp add: draw_axis_line_def split: prod.splits)

lemma fold_step_id: "(\<And>c. c \<in> set calls \<Longrightarrow> step c r = r) \<Longrightarrow> fold step calls r = r"
  by (induction calls) simp_all

lemma draw_object_keeps_lim:
  assumes "draw_object d obj = Inr calls"
  shows "fold (lim_step a) calls r = r"
proof (rule fold_step_id)
  fix c assume "c \<in> set calls"
  with assms show "lim_step a c r = r"
    by (cases obj) (auto simp: polygon_loop_eq unzip3_def split: if_splits prod.splits)
qed

lemma draw_object_keeps_ticks:
  assumes "draw_object d obj = Inr calls"
  shows "fold (ticks_step a) calls r = r"
proof (rule fold_step_id)
  fix c assume "c \<in> set calls"
  with assms show "ticks_step a c r = r"
    by (cases obj) (auto simp: polygon_loop_eq unzip3_def split: if_splits prod.splits)
qed

lemma draw_objects_keeps_lim:
  "draw_objects d objects trace = Inr t \<Longrightarrow> fold (lim_step a) t r = fold (lim_step a) trace r"
proof (induction objects arbitrary: trace)
  case Nil
  then show ?case by simp
next
  case (Cons obj objects)
  then show ?case by (auto simp: draw_object_keeps_lim split: sum.splits)
qed

lemma draw_objects_keeps_ticks:
  "draw_objects d objects trace = Inr t \<Longrightarrow> fold (ticks_step a) t r = fold (ticks_step a) trace r"
proof (induction objects arbitrary: trace)
  case Nil
  then show ?case by simp
next
  case (Cons obj objects)
  then show ?case by (auto simp: draw_object_keeps_ticks split: sum.splits)
qed

lemma draw_objects_extends:
  "draw_objects d objects trace = Inr t \<Longrightarrow> \<exists>rest. t = trace @ rest"
proof (induction objects arbitrary: trace)
  case Nil
  then show ?case by simp
next
  case (Cons obj objects)
  then show ?case by (fastforce split: sum.splits)
qed

lemma draw_object_succeeds:
  "recognized obj \<Longrightarrow> \<forall>c. obj \<noteq> Points3D [] c \<Longrightarrow> \<exists>calls. draw_object d obj = Inr calls"
  by (cases obj) (simp_all add: unzip3_def split: prod.splits)

lemma draw_objects_succeeds:
  "\<forall>obj \<in> set objects. recognized obj \<and> (\<forall>c. obj \<noteq> Points3D [] c) \<Longrightarrow>
   \<exists>t. draw_objects d objects trace = Inr t"
proof (induction objects arbitrary: trace)
  case Nil
  show ?case by simp
next
  case (Cons obj objects)
  then obtain calls where "draw_object d obj = Inr calls"
    using draw_object_succeeds [of obj d] by auto
  with Cons show ?case by simp
qed

lemma draw_objects_fails:
  "\<forall>obj \<in> set objects. recognized obj \<Longrightarrow> Points3D [] c \<in> set objects \<Longrightarrow>
   \<exists>t. draw_objects d objects trace = Inl (ValueError, t)"
proof (induction objects arbitrary: trace)
  case Nil
  then show ?case by simp
next
  case (Cons obj objects)
  show ?case
  proof (cases "\<exists>c'. obj = Points3D [] c'")
    case True
    then show ?thesis by (auto simp: unzip3_def)
  next
    case False
    with Cons.prems obtain calls where calls: "draw_object d obj = Inr calls"
      using draw_object_succeeds [of obj d] by auto
    from False Cons.prems have "Points3D [] c \<in> set objects" and "\<forall>obj \<in> set objects. recognized obj"
      by auto
    then obtain t where "draw_objects d objects (trace @ calls) = Inl (ValueError, t)"
      using Cons.IH by blast
    with calls show ?thesis by simp
  qed
qed

lemma draw3d_frame:
  assumes "draw3d objects opt = Inr trace"
  shows "\<exists>ranges rest. computed_ranges (origin opt) objects = Inr ranges \<and>
           trace = figure_setup opt @ frame opt ranges @ rest @ finish opt"
  using assms
  by (auto simp: draw3d_def split: sum.splits dest!: draw_objects_extends)

lemma computed_ranges_origin_only:
  "computed_ranges True [] = Inr ((- 2, 2), (- 2, 2), (- 2, 2))"
proof -
  have z: "spec_axis_range [0] = (- 2, 2)"
    by (simp add: spec_axis_range_def)
  show ?thesis
    by (simp add: computed_ranges_def all_vectors_def extract_vectors_3D_def plot_ranges_spec z)
qed

lemma draw3d_unrecognized:
  assumes "find (\<lambda>obj. \<not> recognized obj) objects = Some bad"
  shows "draw3d objects opt = Inl (TypeError bad, figure_setup opt)"
  using assms
  by (simp add: draw3d_def computed_ranges_def all_vectors_def extract_vectors_cases)

lemma draw3d_recognized:
  assumes "\<forall>obj \<in> set objects. recognized obj"
  shows "if (origin opt \<or> (\<exists>obj \<in> set objects. documented_vectors obj \<noteq> [])) \<and>
            (\<forall>c. Points3D [] c \<notin> set objects)
         then \<exists>t. draw3d objects opt = Inr t
         else \<exists>t. draw3d objects opt = Inl (ValueError, t)"
proof -
  let ?vs = "concat (map documented_vectors objects)"
  let ?all = "if origin opt then ?vs @ [(0, 0, 0)] else ?vs"
  have av: "all_vectors (origin opt) objects = Inr ?all"
    using assms by (simp add: all_vectors_def extract_vectors_recognized)
  show ?thesis
  proof (cases "?all = []")
    case True
    then have "draw3d objects opt = Inl (ValueError, figure_setup opt)"
      by (simp add: draw3d_def computed_ranges_def av plot_ranges_empty)
    moreover from True have "\<not> (origin opt \<or> (\<exists>obj \<in> set objects. documented_vectors obj \<noteq> []))"
      by (auto split: if_splits)
    ultimately show ?thesis by simp
  next
    case False
    then have some: "origin opt \<or> (\<exists>obj \<in> set objects. documented_vectors obj \<noteq> [])"
      by (auto split: if_splits)
    from False obtain ranges where cr: "computed_ranges (origin opt) objects = Inr ranges"
      by (simp add: computed_ranges_def av plot_ranges_spec)
    show ?thesis
    proof (cases "\<exists>c. Points3D [] c \<in> set objects")
      case True
      then obtain c where "Points3D [] c \<in> set objects" ..
      with assms obtain t where
        "draw_objects (depthshade opt) objects (figure_setup opt @ frame opt ranges) = Inl (ValueError, t)"
        using draw_objects_fails by blast
      then have "draw3d objects opt = Inl (ValueError, t)"
        by (simp add: draw3d_def cr)
      with True show ?thesis by auto
    next
      case False
      with assms have "\<forall>obj \<in> set objects. recognized obj \<and> (\<forall>c. obj \<noteq> Points3D [] c)"
        by auto
      then obtain t where
        "draw_objects (depthshade opt) objects (figure_setup opt @ frame opt ranges) = Inr t"
        using draw_objects_succeeds by blast
      then have "draw3d objects opt = Inr (t @ finish opt)"
        by (simp add: draw3d_def cr)
      with False some show ?thesis by auto
    qed
  qed
qed

lemma lim_after_frame:
  "fold (lim_step X) (figure_setup opt @ frame opt (px, py, pz)) None = Some px"
  "fold (lim_step Y) (figure_setup opt @ frame opt (px, py, pz)) None = Some py"
  "fold (lim_step Z) (figure_setup opt @ frame opt (px, py, pz)) None = Some pz"
  by (simp_all add: figure_setup_def frame_def)

lemma ticks_after_frame:
  "fold (ticks_step a) (figure_setup opt @ frame opt ranges) None = None"
  by (cases ranges) (simp add: figure_setup_def frame_def)

lemma lim_finish:
  "fold (lim_step X) (finish opt) r =
     (if xlim opt \<noteq> None \<and> ylim opt \<noteq> None \<and> zlim opt \<noteq> None then xlim opt else r)"
  "fold (lim_step Y) (finish opt) r =
     (if xlim opt \<noteq> None \<and> ylim opt \<noteq> None \<and> zlim opt \<noteq> None then ylim opt else r)"
  "fold (lim_step Z) (finish opt) r =
     (if xlim opt \<noteq> None \<and> ylim opt \<noteq> None \<and> zlim opt \<noteq> None then zlim opt else r)"
  by (auto simp: finish_def split: option.splits)

lemma ticks_finish:
  "fold (ticks_step X) (finish opt) r =
     (if xticks opt \<noteq> None \<and> yticks opt \<noteq> None \<and> zticks opt \<noteq> None then xticks opt else r)"
  "fold (ticks_step Y) (finish opt) r =
     (if xticks opt \<noteq> None \<and> yticks opt \<noteq> None \<and> zticks opt \<noteq> None then yticks opt else r)"
  "fold (ticks_step Z) (finish opt) r =
     (if xticks opt \<noteq> None \<and> yticks opt \<noteq> None \<and> zticks opt \<noteq> None then zticks opt else r)"
  by (auto simp: finish_def split: option.splits)

lemma draw_objects_append:
  "draw_objects d (xs @ ys) trace =
     (case draw_objects d xs trace of Inl failure \<Rightarrow> Inl failure | Inr t \<Rightarrow> draw_objects d ys t)"
  by (induction xs arbitrary: trace) (simp_all split: sum.splits)

lemma polygon_edges:
  "draw_object d (Polygon3D vertices c) =
     Inr (map (\<lambda>k. draw_axis_line (vertices ! k) (vertices ! ((k + 1) mod length vertices)) c ''solid'')
            [0..<length vertices])"
  by (simp add: polygon_loop_eq)

lemma draw3d_completed:
  assumes "draw3d objects opt = Inr trace"
  shows "\<exists>ranges t. computed_ranges (origin opt) objects = Inr ranges \<and>
           draw_objects (depthshade opt) objects (figure_setup opt @ frame opt ranges) = Inr t \<and>
           trace = t @ finish opt"
  using assms by (auto simp: draw3d_def split: sum.splits)

lemma final_axes_of_completed_call:
  assumes "draw3d objects opt = Inr trace"
  shows "(if xlim opt \<noteq> None \<and> ylim opt \<noteq> None \<and> zlim opt \<noteq> None
          then final_lim X trace = xlim opt \<and> final_lim Y trace = ylim opt \<and> final_lim Z trace = zlim opt
          else \<exists>px py pz. computed_ranges (origin opt) objects = Inr (px, py, pz) \<and>
                 final_lim X trace = Some px \<and> final_lim Y trace = Some py \<and> final_lim Z trace = Some pz) \<and>
         (if xticks opt \<noteq> None \<and> yticks opt \<noteq> None \<and> zticks opt \<noteq> None
          then final_ticks X trace = xticks opt \<and> final_ticks Y trace = yticks opt \<and>
               final_ticks Z trace = zticks opt
          else final_ticks X trace = None \<and> final_ticks Y trace = None \<and> final_ticks Z trace = None)"
proof -
  from assms obtain px py pz t where
    cr: "computed_ranges (origin opt) objects = Inr (px, py, pz)" and
    dr: "draw_objects (depthshade opt) objects (figure_setup opt @ frame opt (px, py, pz)) = Inr t" and
    tr: "trace = t @ finish opt"
    by (auto simp: draw3d_def split: sum.splits)
  have lx: "fold (lim_step X) t None = Some px"
    and ly: "fold (lim_step Y) t None = Some py"
    and lz: "fold (lim_step Z) t None = Some pz"
    by (simp_all only: draw_objects_keeps_lim [OF dr] lim_after_frame)
  have ticks: "fold (ticks_step a) t None = None" for a
    by (simp only: draw_objects_keeps_ticks [OF dr] ticks_after_frame)
  have "final_lim X trace = (if xlim opt \<noteq> None \<and> ylim opt \<noteq> None \<and> zlim opt \<noteq> None then xlim opt else Some px)"
    and "final_lim Y trace = (if xlim opt \<noteq> None \<and> ylim opt \<noteq> None \<and> zlim opt \<noteq> None then ylim opt else Some py)"
    and "final_lim Z trace = (if xlim opt \<noteq> None \<and> ylim opt \<noteq> None \<and> zlim opt \<noteq> None then zlim opt else Some pz)"
    by (simp_all only: final_lim_def tr fold_append comp_apply lx ly lz lim_finish)
  moreover
  have "final_ticks X trace = (if xticks opt \<noteq> None \<and> yticks opt \<noteq> None \<and> zticks opt \<noteq> None then xticks opt else None)"
    and "final_ticks Y trace = (if xticks opt \<noteq> None \<and> yticks opt \<noteq> None \<and> zticks opt \<noteq> None then yticks opt else None)"
    and "final_ticks Z trace = (if xticks opt \<noteq> None \<and> yticks opt \<noteq> None \<and> zticks opt \<noteq> None then zticks opt else None)"
    by (simp_all only: final_ticks_def tr fold_append comp_apply ticks ticks_finish)
  ultimately show ?thesis using cr by simp
qed

section \<open>Properties of the specification\<close>

text \<open>
  Claim C1 (a box is drawn as twelve segments, one per edge of the prism). The comment
  of step 8e announces the twelve edges of the prism, but only nine \<open>_draw_axis_line\<close> calls
  follow it: the three edges that leave the origin along the coordinate axes are never
  drawn. The theorem evaluates the step for \<open>Box3D(2, 3, 4)\<close>.
\<close>

theorem box_draws_nine_edges:
  "draw_object False (Box3D (2, 3, 4)) =
     Inr [Plot [0, 2] [3, 3] [0, 0] ''gray'' ''dashed'',
          Plot [0, 0] [0, 3] [4, 4] ''gray'' ''dashed'',
          Plot [0, 2] [0, 0] [4, 4] ''gray'' ''dashed'',
          Plot [0, 0] [3, 3] [0, 4] ''gray'' ''dashed'',
          Plot [2, 2] [0, 3] [0, 0] ''gray'' ''dashed'',
          Plot [2, 2] [0, 0] [0, 4] ''gray'' ''dashed'',
          Plot [0, 2] [3, 3] [4, 4] ''gray'' ''dashed'',
          Plot [2, 2] [0, 3] [4, 4] ''gray'' ''dashed'',
          Plot [2, 2] [3, 3] [0, 4] ''gray'' ''dashed''] \<and>
   length (projr (draw_object False (Box3D (2, 3, 4)))) = 9 \<and>
   draw_axis_line (0, 0, 0) (2, 0, 0) ''gray'' ''dashed'' \<notin> set (projr (draw_object False (Box3D (2, 3, 4)))) \<and>
   draw_axis_line (0, 0, 0) (0, 3, 0) ''gray'' ''dashed'' \<notin> set (projr (draw_object False (Box3D (2, 3, 4)))) \<and>
   draw_axis_line (0, 0, 0) (0, 0, 4) ''gray'' ''dashed'' \<notin> set (projr (draw_object False (Box3D (2, 3, 4))))"
  by (simp add: draw_axis_line_def)

text \<open>
  Claim C2 (the failure modes of \<open>draw3d\<close>). The call raises the \<open>TypeError\<close> exactly
  when some object is of an unrecognized kind, and the error names the first such object.
  Recognized objects do not exclude other failures: when no vector is extracted and the
  origin is not requested, the unpacking of step 3 raises \<open>ValueError\<close> right after the
  set-up of the figure; and a call with a point set that holds no vector never completes.
\<close>

theorem draw3d_failures:
  "((\<exists>bad t. draw3d objects opt = Inl (TypeError bad, t)) \<longleftrightarrow> (\<exists>obj \<in> set objects. \<not> recognized obj)) \<and>
   (\<forall>bad t. draw3d objects opt = Inl (TypeError bad, t) \<longrightarrow>
      find (\<lambda>obj. \<not> recognized obj) objects = Some bad) \<and>
   ((\<forall>obj \<in> set objects. recognized obj) \<and> \<not> origin opt \<and>
      (\<forall>obj \<in> set objects. documented_vectors obj = []) \<longrightarrow>
        draw3d objects opt = Inl (ValueError, figure_setup opt)) \<and>
   ((\<forall>obj \<in> set objects. recognized obj) \<and> (\<exists>c. Points3D [] c \<in> set objects) \<longrightarrow>
        (\<exists>failure. draw3d objects opt = Inl failure))"
proof (cases "find (\<lambda>obj. \<not> recognized obj) objects")
  case None
  then have rec: "\<forall>obj \<in> set objects. recognized obj"
    by (auto simp: find_None_iff)
  from draw3d_recognized [OF rec, of opt]
  have "(\<exists>t. draw3d objects opt = Inr t) \<or> (\<exists>t. draw3d objects opt = Inl (ValueError, t))"
    by (auto split: if_splits)
  then have no_type_error: "draw3d objects opt \<noteq> Inl (TypeError bad, t)" for bad t
    by auto
  have empty: "draw3d objects opt = Inl (ValueError, figure_setup opt)"
    if "\<not> origin opt" and "\<forall>obj \<in> set objects. documented_vectors obj = []"
  proof -
    from that(2) have "concat (map documented_vectors objects) = []" by simp
    with that(1) rec have "computed_ranges (origin opt) objects = Inl ValueError"
      by (simp only: computed_ranges_def all_vectors_def extract_vectors_recognized
          plot_ranges_empty sum.case if_False)
    then show ?thesis by (simp add: draw3d_def)
  qed
  have points: "\<exists>failure. draw3d objects opt = Inl failure" if "Points3D [] c \<in> set objects" for c
    using draw3d_recognized [OF rec, of opt] that by (auto split: if_splits)
  show ?thesis
    using rec no_type_error empty points by auto
next
  case (Some bad)
  then have "bad \<in> set objects" and "\<not> recognized bad"
    by (auto simp: find_Some_iff)
  with Some draw3d_unrecognized [OF Some, of opt] show ?thesis
    by auto
qed

theorem draw3d_failures_witness:
  "draw3d [Box3D (2, 3, 4), Other ''42''] default_options
     = Inl (TypeError (Other ''42''), [Figure 6, Add_subplot]) \<and>
   draw3d [Polygon3D [] ''blue''] (default_options\<lparr>origin := False\<rparr>)
     = Inl (ValueError, [Figure 6, Add_subplot]) \<and>
   (\<exists>failure. draw3d [Points3D [] ''black''] default_options = Inl failure)"
proof -
  have "\<exists>bad t. draw3d [Box3D (2, 3, 4), Other ''42''] default_options = Inl (TypeError bad, t)"
    using draw3d_failures [of "[Box3D (2, 3, 4), Other ''42'']" default_options] by simp
  then obtain bad t where
    e: "draw3d [Box3D (2, 3, 4), Other ''42''] default_options = Inl (TypeError bad, t)"
    by blast
  then have "find (\<lambda>obj. \<not> recognized obj) [Box3D (2, 3, 4), Other ''42''] = Some bad"
    using draw3d_failures [of "[Box3D (2, 3, 4), Other ''42'']" default_options] by blast
  then have "bad = Other ''42''" by simp
  moreover have "t = [Figure 6, Add_subplot]"
    using e by (simp add: draw3d_def computed_ranges_def all_vectors_def extract_vectors_3D_def
        figure_setup_def default_options_def)
  ultimately have "draw3d [Box3D (2, 3, 4), Other ''42''] default_options
     = Inl (TypeError (Other ''42''), [Figure 6, Add_subplot])"
    using e by simp
  moreover have "draw3d [Polygon3D [] ''blue''] (default_options\<lparr>origin := False\<rparr>)
     = Inl (ValueError, [Figure 6, Add_subplot])"
    using draw3d_failures [of "[Polygon3D [] ''blue'']" "default_options\<lparr>origin := False\<rparr>"]
    by (simp add: default_options_def figure_setup_def)
  moreover have "\<exists>failure. draw3d [Points3D [] ''black''] default_options = Inl failure"
    using draw3d_failures [of "[Points3D [] ''black'']" default_options] by simp
  ultimately show ?thesis by blast
qed

text \<open>
  A point set without vectors is of a recognized kind, and still the call fails: the
  bounding box is computed and the axes are drawn, then \<open>zip(*obj.vectors)\<close> has nothing to
  unpack.
\<close>

theorem draw3d_failures_counterexample:
  "recognized (Points3D [] ''black'') \<and>
   draw3d [Points3D [] ''black''] default_options =
     Inl (ValueError,
          [Figure 6, Add_subplot, Set_lim X (- 2, 2), Set_lim Y (- 2, 2), Set_lim Z (- 2, 2),
           Set_label X ''x'', Set_label Y ''y'', Set_label Z ''z'',
           Plot [- 2, 2] [0, 0] [0, 0] ''black'' ''solid'',
           Plot [0, 0] [- 2, 2] [0, 0] ''black'' ''solid'',
           Plot [0, 0] [0, 0] [- 2, 2] ''black'' ''solid'',
           Scatter [0] [0] [0] ''k'' (Some ''x'') None])"
proof -
  have z: "spec_axis_range [0] = (- 2, 2)"
    by (simp add: spec_axis_range_def)
  have cr: "computed_ranges True [Points3D [] ''black''] = Inr ((- 2, 2), (- 2, 2), (- 2, 2))"
    by (simp add: computed_ranges_def all_vectors_def extract_vectors_3D_def plot_ranges_spec z)
  show ?thesis
    by (simp add: draw3d_def default_options_def cr figure_setup_def frame_def unzip3_def
        draw_axis_line_def black_def)
qed

text \<open>
  Claim C3 (how each axis range is computed). Whenever the list of all vectors is
  not empty, the three ranges computed by the code are, axis by axis, the range the
  specification describes: minimum and maximum with zero included, five percent of the
  extent as padding (one when the extent is zero), widened to contain \<open>[-2, 2]\<close>.
\<close>

theorem ranges_as_specified:
  assumes "all_vectors org objects = Inr vectors" and "vectors \<noteq> []"
  shows "computed_ranges org objects =
           Inr (spec_axis_range (map fst vectors),
                spec_axis_range (map (fst \<circ> snd) vectors),
                spec_axis_range (map (snd \<circ> snd) vectors))"
  using assms by (simp add: computed_ranges_def plot_ranges_spec)

theorem ranges_as_specified_witness:
  "computed_ranges False [Segment3D (1, 2, 3) (- 4, 0, 10) ''blue'' ''solid'']
     = Inr ((- (17 / 4), 2), (- 2, 21 / 10), (- 2, 21 / 2))"
proof -
  have a: "all_vectors False [Segment3D (1, 2, 3) (- 4, 0, 10) ''blue'' ''solid'']
             = Inr [(1, 2, 3), (- 4, 0, 10)]"
    by (simp add: all_vectors_def extract_vectors_3D_def)
  have b: "[(1, 2, 3), (- 4, 0, 10)] \<noteq> ([] :: vec list)" by simp
  show ?thesis
    using ranges_as_specified [OF a b] by (simp add: spec_axis_range_def Let_def)
qed

text \<open>
  Claim C4 (the ranges reach at least from \<open>-2\<close> to \<open>2\<close> and cover every vector). For
  recognized objects, whenever there is a vector to unpack, the three ranges are computed,
  each has its lower bound at most \<open>-2\<close> and its upper bound at least \<open>2\<close> (so it contains
  the origin), and each extracted vector lies within them.
\<close>

theorem ranges_cover:
  assumes "extract_vectors_3D objects = Inr vs" and "org \<or> vs \<noteq> []"
  shows "\<exists>xl xh yl yh zl zh.
           computed_ranges org objects = Inr ((xl, xh), (yl, yh), (zl, zh)) \<and>
           xl \<le> - 2 \<and> 2 \<le> xh \<and> yl \<le> - 2 \<and> 2 \<le> yh \<and> zl \<le> - 2 \<and> 2 \<le> zh \<and>
           (\<forall>(x, y, z) \<in> set vs. xl \<le> x \<and> x \<le> xh \<and> yl \<le> y \<and> y \<le> yh \<and> zl \<le> z \<and> z \<le> zh)"
proof -
  define vectors where "vectors = (if org then vs @ [(0, 0, 0)] else vs)"
  have ne: "vectors \<noteq> []" using assms(2) by (auto simp: vectors_def)
  have sub: "set vs \<subseteq> set vectors" by (auto simp: vectors_def)
  have cr: "computed_ranges org objects =
              Inr (spec_axis_range (map fst vectors),
                   spec_axis_range (map (fst \<circ> snd) vectors),
                   spec_axis_range (map (snd \<circ> snd) vectors))"
    using assms(1) ne by (simp add: computed_ranges_def all_vectors_def vectors_def plot_ranges_spec)
  have in_range: "fst (spec_axis_range (map f vectors)) \<le> f v \<and> f v \<le> snd (spec_axis_range (map f vectors))"
    if "v \<in> set vs" for f :: "vec \<Rightarrow> real" and v
  proof -
    from that sub have "f v \<in> set (map f vectors)" by auto
    then show ?thesis using spec_axis_range_bounds [of "map f vectors"] by blast
  qed
  show ?thesis
  proof (intro exI conjI)
    show "computed_ranges org objects =
            Inr ((fst (spec_axis_range (map fst vectors)), snd (spec_axis_range (map fst vectors))),
                 (fst (spec_axis_range (map (fst \<circ> snd) vectors)), snd (spec_axis_range (map (fst \<circ> snd) vectors))),
                 (fst (spec_axis_range (map (snd \<circ> snd) vectors)), snd (spec_axis_range (map (snd \<circ> snd) vectors))))"
      by (simp add: cr)
    show "\<forall>(x, y, z) \<in> set vs.
            fst (spec_axis_range (map fst vectors)) \<le> x \<and> x \<le> snd (spec_axis_range (map fst vectors)) \<and>
            fst (spec_axis_range (map (fst \<circ> snd) vectors)) \<le> y \<and> y \<le> snd (spec_axis_range (map (fst \<circ> snd) vectors)) \<and>
            fst (spec_axis_range (map (snd \<circ> snd) vectors)) \<le> z \<and> z \<le> snd (spec_axis_range (map (snd \<circ> snd) vectors))"
    proof (intro ballI, clarify)
      fix x y z assume "(x, y, z) \<in> set vs"
      then show "fst (spec_axis_range (map fst vectors)) \<le> x \<and> x \<le> snd (spec_axis_range (map fst vectors)) \<and>
            fst (spec_axis_range (map (fst \<circ> snd) vectors)) \<le> y \<and> y \<le> snd (spec_axis_range (map (fst \<circ> snd) vectors)) \<and>
            fst (spec_axis_range (map (snd \<circ> snd) vectors)) \<le> z \<and> z \<le> snd (spec_axis_range (map (snd \<circ> snd) vectors))"
        using in_range [of "(x, y, z)" fst] in_range [of "(x, y, z)" "fst \<circ> snd"]
          in_range [of "(x, y, z)" "snd \<circ> snd"]
        by simp
    qed
  qed (simp_all add: spec_axis_range_bounds)
qed

theorem ranges_cover_witness:
  "\<exists>xl xh yl yh zl zh.
     computed_ranges False [Arrow3D (3, - 4, 1) (0, 0, 0) ''red''] = Inr ((xl, xh), (yl, yh), (zl, zh)) \<and>
     xl \<le> - 2 \<and> 2 \<le> xh \<and> yl \<le> - 2 \<and> 2 \<le> yh \<and> zl \<le> - 2 \<and> 2 \<le> zh \<and>
     xl \<le> 3 \<and> 3 \<le> xh \<and> yl \<le> - 4 \<and> - 4 \<le> yh \<and> zl \<le> 1 \<and> 1 \<le> zh"
proof -
  have a: "extract_vectors_3D [Arrow3D (3, - 4, 1) (0, 0, 0) ''red''] = Inr [(3, - 4, 1), (0, 0, 0)]"
    by (simp add: extract_vectors_3D_def)
  have b: "False \<or> [(3, - 4, 1), (0, 0, 0)] \<noteq> ([] :: vec list)" by simp
  from ranges_cover [OF a b] obtain xl xh yl yh zl zh where
    r: "computed_ranges False [Arrow3D (3, - 4, 1) (0, 0, 0) ''red''] = Inr ((xl, xh), (yl, yh), (zl, zh))"
    and m: "xl \<le> - 2 \<and> 2 \<le> xh \<and> yl \<le> - 2 \<and> 2 \<le> yh \<and> zl \<le> - 2 \<and> 2 \<le> zh"
    and c: "\<forall>(x, y, z) \<in> set [(3, - 4, 1), (0, 0, 0)].
              xl \<le> x \<and> x \<le> xh \<and> yl \<le> y \<and> y \<le> yh \<and> zl \<le> z \<and> z \<le> zh"
    by blast
  from c have "xl \<le> 3 \<and> 3 \<le> xh \<and> yl \<le> - 4 \<and> - 4 \<le> yh \<and> zl \<le> 1 \<and> 1 \<le> zh"
    by simp
  with r m show ?thesis by blast
qed

text \<open>
  Claim C5 (extraction yields exactly the documented coordinates). For objects of the
  five recognized kinds the extracted list is the concatenation, in call order, of the
  documented vectors of each object.
\<close>

theorem extract_vectors_documented:
  assumes "\<forall>obj \<in> set objects. recognized obj"
  shows "extract_vectors_3D objects = Inr (concat (map documented_vectors objects))"
  using assms by (simp add: extract_vectors_3D_def extract_loop_recognized)

theorem extract_vectors_documented_witness:
  "extract_vectors_3D
     [Polygon3D [(1, 0, 0), (0, 1, 0), (0, 0, 1)] ''blue'', Points3D [(2, 2, 2), (3, 3, 3)] ''black'',
      Arrow3D (1, 2, 3) (0, 0, 0) ''red'', Segment3D (4, 5, 6) (7, 8, 9) ''blue'' ''solid'',
      Box3D (2, 3, 4)]
   = Inr [(1, 0, 0), (0, 1, 0), (0, 0, 1), (2, 2, 2), (3, 3, 3), (1, 2, 3), (0, 0, 0),
          (4, 5, 6), (7, 8, 9), (2, 3, 4)]"
  using extract_vectors_documented
    [of "[Polygon3D [(1, 0, 0), (0, 1, 0), (0, 0, 1)] ''blue'', Points3D [(2, 2, 2), (3, 3, 3)] ''black'',
      Arrow3D (1, 2, 3) (0, 0, 0) ''red'', Segment3D (4, 5, 6) (7, 8, 9) ''blue'' ''solid'',
      Box3D (2, 3, 4)]"]
  by simp

text \<open>
  Claim C6 (a polygon is a closed loop). In every completed call, the calls made for a
  polygon of \<open>N\<close> vertices stand in the trace between those of the objects before it and
  those of the objects after it, and they are exactly \<open>N\<close> line calls, the \<open>i\<close>-th from
  vertex \<open>i\<close> to vertex \<open>(i + 1) mod N\<close>; when there is a vertex at all, the last call goes
  from the last vertex back to the first.
\<close>

theorem polygon_closed_loop:
  assumes "draw3d (before @ Polygon3D vertices c # after) opt = Inr trace"
  shows "\<exists>ranges tb edges rest.
           computed_ranges (origin opt) (before @ Polygon3D vertices c # after) = Inr ranges \<and>
           draw_objects (depthshade opt) before (figure_setup opt @ frame opt ranges) = Inr tb \<and>
           draw_objects (depthshade opt) after (tb @ edges) = Inr (tb @ edges @ rest) \<and>
           trace = tb @ edges @ rest @ finish opt \<and>
           length edges = length vertices \<and>
           (\<forall>i < length vertices.
              edges ! i = draw_axis_line (vertices ! i) (vertices ! ((i + 1) mod length vertices)) c ''solid'') \<and>
           (vertices \<noteq> [] \<longrightarrow> last edges = draw_axis_line (last vertices) (hd vertices) c ''solid'')"
proof -
  let ?edge = "\<lambda>k. draw_axis_line (vertices ! k) (vertices ! ((k + 1) mod length vertices)) c ''solid''"
  let ?edges = "map ?edge [0..<length vertices]"
  let ?d = "depthshade opt"
  from draw3d_completed [OF assms] obtain ranges t where
    cr: "computed_ranges (origin opt) (before @ Polygon3D vertices c # after) = Inr ranges" and
    dr: "draw_objects ?d (before @ Polygon3D vertices c # after) (figure_setup opt @ frame opt ranges) = Inr t" and
    tr: "trace = t @ finish opt"
    by blast
  have step: "draw_objects ?d (Polygon3D vertices c # after) tb = draw_objects ?d after (tb @ ?edges)"
    for tb
    by (simp only: draw_objects.simps polygon_edges sum.case)
  from dr obtain tb where
    b: "draw_objects ?d before (figure_setup opt @ frame opt ranges) = Inr tb" and
    a': "draw_objects ?d (Polygon3D vertices c # after) tb = Inr t"
    by (auto simp only: draw_objects_append split: sum.splits)
  from a' have a: "draw_objects ?d after (tb @ ?edges) = Inr t"
    by (simp only: step)
  from draw_objects_extends [OF a] obtain rest where rest: "t = (tb @ ?edges) @ rest" ..
  have closing: "last ?edges = draw_axis_line (last vertices) (hd vertices) c ''solid''"
    if "vertices \<noteq> []"
  proof -
    from that obtain n where n: "length vertices = Suc n" by (cases vertices) auto
    then have "last ?edges = ?edge n" by simp
    also have "\<dots> = draw_axis_line (last vertices) (hd vertices) c ''solid''"
      using that n by (simp add: last_conv_nth hd_conv_nth)
    finally show ?thesis .
  qed
  have "draw_objects ?d after (tb @ ?edges) = Inr (tb @ ?edges @ rest)"
    using a rest by simp
  moreover have "trace = tb @ ?edges @ rest @ finish opt"
    using tr rest by simp
  moreover have "length ?edges = length vertices" by simp
  moreover have "\<forall>i < length vertices. ?edges ! i = ?edge i" by simp
  ultimately show ?thesis using cr b closing by blast
qed

theorem polygon_closed_loop_witness:
  "\<exists>tb edges rest.
     draw3d [Polygon3D [(1, 0, 0), (0, 1, 0), (0, 0, 1)] ''blue''] default_options
       = Inr (tb @ edges @ rest @ finish default_options) \<and>
     length edges = 3 \<and>
     edges ! 0 = Plot [1, 0] [0, 1] [0, 0] ''blue'' ''solid'' \<and>
     edges ! 1 = Plot [0, 0] [1, 0] [0, 1] ''blue'' ''solid'' \<and>
     edges ! 2 = Plot [0, 1] [0, 0] [1, 0] ''blue'' ''solid'' \<and>
     last edges = Plot [0, 1] [0, 0] [1, 0] ''blue'' ''solid''"
proof -
  let ?vs = "[(1, 0, 0), (0, 1, 0), (0, 0, 1)] :: vec list"
  have "\<exists>t. draw3d [Polygon3D ?vs ''blue''] default_options = Inr t"
    using draw3d_recognized [of "[Polygon3D ?vs ''blue'']" default_options] by simp
  then obtain trace where d: "draw3d ([] @ Polygon3D ?vs ''blue'' # []) default_options = Inr trace"
    by auto
  from polygon_closed_loop [OF d] obtain tb edges rest where
    tr: "trace = tb @ edges @ rest @ finish default_options" and
    len: "length edges = length ?vs" and
    nth: "\<And>i. i < length ?vs \<Longrightarrow>
            edges ! i = draw_axis_line (?vs ! i) (?vs ! ((i + 1) mod length ?vs)) ''blue'' ''solid''" and
    lst: "?vs \<noteq> [] \<longrightarrow> last edges = draw_axis_line (last ?vs) (hd ?vs) ''blue'' ''solid''"
    by blast
  have "edges ! 0 = Plot [1, 0] [0, 1] [0, 0] ''blue'' ''solid''"
    using nth [of 0] by (simp add: draw_axis_line_def)
  moreover have "edges ! 1 = Plot [0, 0] [1, 0] [0, 1] ''blue'' ''solid''"
    using nth [of 1] by (simp add: draw_axis_line_def)
  moreover have "edges ! 2 = Plot [0, 1] [0, 0] [1, 0] ''blue'' ''solid''"
    using nth [of 2] by (simp add: draw_axis_line_def)
  moreover have "last edges = Plot [0, 1] [0, 0] [1, 0] ''blue'' ''solid''"
    using lst by (simp add: draw_axis_line_def)
  moreover have "draw3d [Polygon3D ?vs ''blue''] default_options = Inr (tb @ edges @ rest @ finish default_options)"
    using d tr by simp
  moreover have "length edges = 3"
    using len by simp
  ultimately show ?thesis by blast
qed

text \<open>
  Claim C7 (explicit limits and ticks override the computed ones, whichever are given).
  The docstring promises that \<open>xlim\<close>, \<open>ylim\<close>, \<open>zlim\<close> are enforced if given, and likewise the
  ticks, and step 2 honours a lone \<open>azim\<close> or \<open>elev\<close>; but the guards of steps 9 and 10 are
  conjunctions, so a limit or a tick list given alone is dropped. The theorem evaluates
  \<open>draw3d(xlim=(0, 1), xticks=[0, 1])\<close>: the x axis ends with its computed range and
  without tick positions.
\<close>

theorem lone_limit_is_dropped:
  "draw3d [] (default_options\<lparr>xlim := Some (0, 1), xticks := Some [0, 1]\<rparr>) =
     Inr [Figure 6, Add_subplot, Set_lim X (- 2, 2), Set_lim Y (- 2, 2), Set_lim Z (- 2, 2),
          Set_label X ''x'', Set_label Y ''y'', Set_label Z ''z'',
          Plot [- 2, 2] [0, 0] [0, 0] ''black'' ''solid'',
          Plot [0, 0] [- 2, 2] [0, 0] ''black'' ''solid'',
          Plot [0, 0] [0, 0] [- 2, 2] ''black'' ''solid'',
          Scatter [0] [0] [0] ''k'' (Some ''x'') None, Show] \<and>
   final_lim X
     [Figure 6, Add_subplot, Set_lim X (- 2, 2), Set_lim Y (- 2, 2), Set_lim Z (- 2, 2),
      Set_label X ''x'', Set_label Y ''y'', Set_label Z ''z'',
      Plot [- 2, 2] [0, 0] [0, 0] ''black'' ''solid'',
      Plot [0, 0] [- 2, 2] [0, 0] ''black'' ''solid'',
      Plot [0, 0] [0, 0] [- 2, 2] ''black'' ''solid'',
      Scatter [0] [0] [0] ''k'' (Some ''x'') None, Show] = Some (- 2, 2) \<and>
   final_ticks X
     [Figure 6, Add_subplot, Set_lim X (- 2, 2), Set_lim Y (- 2, 2), Set_lim Z (- 2, 2),
      Set_label X ''x'', Set_label Y ''y'', Set_label Z ''z'',
      Plot [- 2, 2] [0, 0] [0, 0] ''black'' ''solid'',
      Plot [0, 0] [- 2, 2] [0, 0] ''black'' ''solid'',
      Plot [0, 0] [0, 0] [- 2, 2] ''black'' ''solid'',
      Scatter [0] [0] [0] ''k'' (Some ''x'') None, Show] = None"
  by (simp add: draw3d_def default_options_def computed_ranges_origin_only final_lim_def
      final_ticks_def figure_setup_def frame_def finish_def draw_axis_line_def black_def)

text \<open>
  Claim C8 (no objects and no origin). With no objects and \<open>origin=False\<close> the call
  fails with the \<open>ValueError\<close> of the unpacking; the only calls made before the failure
  are those that set the figure up, so nothing has been drawn.
\<close>

theorem no_objects_no_origin:
  assumes "\<not> origin opt"
  shows "draw3d [] opt = Inl (ValueError, figure_setup opt) \<and>
         set (figure_setup opt) \<subseteq> {Figure (width opt), Add_subplot, View_init (elev opt) (azim opt)}"
  using assms
  by (auto simp: draw3d_def computed_ranges_def all_vectors_def extract_vectors_3D_def
      plot_ranges_empty figure_setup_def)

theorem no_objects_no_origin_witness:
  "draw3d [] (default_options\<lparr>origin := False\<rparr>) = Inl (ValueError, [Figure 6, Add_subplot])"
  using no_objects_no_origin [of "default_options\<lparr>origin := False\<rparr>"]
  by (simp add: default_options_def figure_setup_def)

text \<open>
  Claim C9 (the ranges do not depend on the order of the objects). For recognized
  objects, a permutation of the argument list leaves the outcome of the bounding-box
  computation unchanged.
\<close>

theorem ranges_permutation:
  assumes "mset objects = mset objects'" and "\<forall>obj \<in> set objects. recognized obj"
  shows "computed_ranges org objects = computed_ranges org objects'"
proof -
  have same: "set objects = set objects'" using assms(1) by (rule mset_eq_setD)
  with assms(2) have rec': "\<forall>obj \<in> set objects'. recognized obj" by simp
  let ?vs = "concat (map documented_vectors objects)"
  let ?vs' = "concat (map documented_vectors objects')"
  have "set ?vs = set ?vs'" using same by simp
  then have "set (if org then ?vs @ [(0, 0, 0)] else ?vs) = set (if org then ?vs' @ [(0, 0, 0)] else ?vs')"
    by simp
  then have "plot_ranges (if org then ?vs @ [(0, 0, 0)] else ?vs)
               = plot_ranges (if org then ?vs' @ [(0, 0, 0)] else ?vs')"
    by (rule plot_ranges_set)
  then show ?thesis
    using assms(2) rec'
    by (simp add: computed_ranges_def all_vectors_def extract_vectors_recognized)
qed

theorem ranges_permutation_witness:
  "computed_ranges True [Box3D (2, 3, 4), Arrow3D (- 5, 0, 1) (0, 0, 0) ''red'']
     = computed_ranges True [Arrow3D (- 5, 0, 1) (0, 0, 0) ''red'', Box3D (2, 3, 4)]"
proof -
  have a: "mset [Box3D (2, 3, 4), Arrow3D (- 5, 0, 1) (0, 0, 0) ''red'']
             = mset [Arrow3D (- 5, 0, 1) (0, 0, 0) ''red'', Box3D (2, 3, 4)]"
    by simp
  have b: "\<forall>obj \<in> set [Box3D (2, 3, 4), Arrow3D (- 5, 0, 1) (0, 0, 0) ''red'']. recognized obj"
    by simp
  from ranges_permutation [OF a b] show ?thesis .
qed

text \<open>
  Claim C10 (the origin flag does not change the ranges). This holds when the objects
  yield at least one vector: zero is already among the arguments of \<open>max\<close> and \<open>min\<close>. A
  list of objects that is not empty may still yield no vector; then the ranges exist only
  with the flag set.
\<close>

theorem ranges_origin_flag:
  assumes "extract_vectors_3D objects = Inr vs" and "vs \<noteq> []"
  shows "computed_ranges True objects = computed_ranges False objects"
  using assms by (simp add: computed_ranges_def all_vectors_def plot_ranges_origin)

theorem ranges_origin_flag_witness:
  "computed_ranges True [Box3D (2, 3, 4)] = computed_ranges False [Box3D (2, 3, 4)]"
proof -
  have a: "extract_vectors_3D [Box3D (2, 3, 4)] = Inr [(2, 3, 4)]"
    by (simp add: extract_vectors_3D_def)
  have b: "[(2, 3, 4)] \<noteq> ([] :: vec list)" by simp
  from ranges_origin_flag [OF a b] show ?thesis .
qed

text \<open>
  A polygon without vertices: with the origin the ranges are the minimal ones, without
  it the unpacking fails.
\<close>

theorem ranges_origin_flag_counterexample:
  "computed_ranges True [Polygon3D [] ''blue''] = Inr ((- 2, 2), (- 2, 2), (- 2, 2)) \<and>
   computed_ranges False [Polygon3D [] ''blue''] = Inl ValueError"
proof -
  have t: "all_vectors True [Polygon3D [] ''blue''] = Inr [(0, 0, 0)]"
    by (simp add: all_vectors_def extract_vectors_3D_def)
  have f: "all_vectors False [Polygon3D [] ''blue''] = Inr []"
    by (simp add: all_vectors_def extract_vectors_3D_def)
  have z: "spec_axis_range [0] = (- 2, 2)"
    by (simp add: spec_axis_range_def)
  have p: "plot_ranges [(0, 0, 0)] = Inr ((- 2, 2), (- 2, 2), (- 2, 2))"
    by (simp add: plot_ranges_spec z)
  show ?thesis
    by (simp add: computed_ranges_def t f p plot_ranges_empty)
qed

end
